theory Spec2Isabelle
  imports Complex_Main
begin

section \<open>Strings\<close>

text \<open>
  A Python \<open>str\<close> is modelled as a \<open>string\<close>, one \<open>char\<close> per code point. The
  hardware ids, descriptions and device names handed out by the serial enumerator are
  ASCII, the degree sign of the unit labels is the code point \<open>0xB0\<close>. \<open>upper\<close> is
  \<open>str.upper\<close> on that range: the letters \<open>a\<close> to \<open>z\<close> move to \<open>A\<close> to \<open>Z\<close> and every
  other character stays.
\<close>

definition upper_char :: "char \<Rightarrow> char" where
  "upper_char c =
     (case map_of (zip ''abcdefghijklmnopqrstuvwxyz'' ''ABCDEFGHIJKLMNOPQRSTUVWXYZ'') c of
        Some u \<Rightarrow> u
      | None \<Rightarrow> c)"

definition upper :: "string \<Rightarrow> string" where
  "upper s = map upper_char s"

text \<open>The character class \<open>[0-9A-F]\<close> of the regular expression.\<close>

definition hex_class :: "char \<Rightarrow> bool" where
  "hex_class c = (c \<in> set ''0123456789ABCDEF'')"

text \<open>A hexadecimal digit in either case, as it may stand in the hardware id itself.\<close>

definition hex_digit :: "char \<Rightarrow> bool" where
  "hex_digit c = (c \<in> set ''0123456789abcdefABCDEF'')"

text \<open>Python's \<open>s[i:j]\<close> for \<open>0 \<le> i \<le> j\<close> and \<open>sep.join(parts)\<close>.\<close>

definition slice :: "string \<Rightarrow> nat \<Rightarrow> nat \<Rightarrow> string" where
  "slice s i j = take (j - i) (drop i s)"

fun join :: "string \<Rightarrow> string list \<Rightarrow> string" where
  "join sep [] = []"
| "join sep [x] = x"
| "join sep (x # y # ys) = x @ sep @ join sep (y # ys)"

text \<open>\<open>needle in haystack\<close> on strings: the needle occurs as a contiguous substring.\<close>

fun contains :: "string \<Rightarrow> string \<Rightarrow> bool" where
  "contains [] needle = (needle = [])"
| "contains (c # cs) needle =
     (take (length needle) (c # cs) = needle \<or> contains cs needle)"

section \<open>MAC extraction\<close>

text \<open>
  \<open>re.search(r'&([0-9A-F]{12})', s)\<close>: the scan tries every start position from the
  left and stops at the first one where an ampersand is followed by twelve characters
  of the class; the result is group 1, the twelve characters, or \<open>None\<close>.
\<close>

fun re_search_mac :: "string \<Rightarrow> string option" where
  "re_search_mac [] = None"
| "re_search_mac (c # cs) =
     (if c = CHR ''&'' \<and> 12 \<le> length cs \<and> list_all hex_class (take 12 cs)
      then Some (take 12 cs)
      else re_search_mac cs)"

text \<open>\<open>":".join(mac_raw[i:i+2] for i in range(0, 12, 2))\<close>\<close>

definition group_mac :: "string \<Rightarrow> string" where
  "group_mac mac_raw = join '':'' (map (\<lambda>i. slice mac_raw i (i + 2)) [0, 2, 4, 6, 8, 10])"

text \<open>
  \<open>extract_mac_from_hwid\<close> as OBD-v2.py, OBD-v3.py and OBD-v4.py define it and as
  OBD-v5.py defines it first (line 73): the zero MAC stands for "not found".
\<close>

definition extract_mac_from_hwid :: "string \<Rightarrow> string" where
  "extract_mac_from_hwid hwid =
     (case re_search_mac (upper hwid) of
        Some mac_raw \<Rightarrow> group_mac mac_raw
      | None \<Rightarrow> ''00:00:00:00:00:00'')"

text \<open>
  The second \<open>def extract_mac_from_hwid\<close> of OBD-v5.py (line 491), in the port listing
  script appended to the module: the same search, and \<open>"Unknown"\<close> when nothing matches.
\<close>

definition extract_mac_from_hwid_v5_redef :: "string \<Rightarrow> string" where
  "extract_mac_from_hwid_v5_redef hwid =
     (case re_search_mac (upper hwid) of
        Some mac_raw \<Rightarrow> group_mac mac_raw
      | None \<Rightarrow> ''Unknown'')"

text \<open>
  The property the claims speak of: at position \<open>i\<close> of \<open>s\<close> stands an ampersand and
  the twelve characters after it all belong to the class \<open>digit\<close>.
\<close>

definition token_at :: "(char \<Rightarrow> bool) \<Rightarrow> string \<Rightarrow> nat \<Rightarrow> bool" where
  "token_at digit s i =
     (i + 12 < length s \<and> s ! i = CHR ''&'' \<and> (\<forall>j \<in> {1..12}. digit (s ! (i + j))))"

section \<open>Port scan\<close>

record port_info =
  device :: string
  description :: string
  hwid :: string

text \<open>
  \<open>list_paired_bluetooth_ports\<close>. The body looks \<open>extract_mac_from_hwid\<close> up in the
  module namespace when it runs, so the function bound to that name is a parameter;
  \<open>ports\<close> is what \<open>serial.tools.list_ports.comports()\<close> returned.
\<close>

fun list_paired_bluetooth_ports ::
  "(string \<Rightarrow> string) \<Rightarrow> port_info list \<Rightarrow> (string \<times> string) list" where
  "list_paired_bluetooth_ports extract [] = []"
| "list_paired_bluetooth_ports extract (port # ports) =
     (if contains (description port) ''Bluetooth''
      then (let mac = extract (hwid port)
            in if mac \<noteq> ''00:00:00:00:00:00''
               then (device port, mac) # list_paired_bluetooth_ports extract ports
               else list_paired_bluetooth_ports extract ports)
      else list_paired_bluetooth_ports extract ports)"

text \<open>
  Loading OBD-v5.py executes its \<open>def\<close> statements from top to bottom, each binding the
  name anew: the definitions of \<open>extract_mac_from_hwid\<close> in the order of the file, and the
  binding in force once the whole module has been executed.
\<close>

definition extract_defs_v5 :: "(string \<Rightarrow> string) list" where
  "extract_defs_v5 = [extract_mac_from_hwid, extract_mac_from_hwid_v5_redef]"

definition extract_bound_after_load_v5 :: "string \<Rightarrow> string" where
  "extract_bound_after_load_v5 = last extract_defs_v5"

section \<open>Numbers and their formatting\<close>

text \<open>
  The magnitude of a reading is a Python \<open>int\<close> or a Python \<open>float\<close>
  (\<open>isinstance(value, float)\<close> tells them apart). A float is modelled by the rational
  number it denotes; \<open>fl\<close> rounds a rational to the nearest binary64 value, ties to the
  even significand, as every float operation of Python does with its exact result. The
  model covers the normal range of binary64 (no overflow, no subnormal numbers, no signed
  zero, no NaN), which holds every decoded sensor value.
\<close>

datatype magnitude = IntMag int | FloatMag rat

definition round_half_even :: "rat \<Rightarrow> int" where
  "round_half_even x =
     (let f = \<lfloor>x\<rfloor>; r = x - of_int f
      in if r < 1 / 2 then f else if 1 / 2 < r then f + 1 else if even f then f else f + 1)"

fun ilog2 :: "nat \<Rightarrow> nat" where
  "ilog2 n = (if n < 2 then 0 else Suc (ilog2 (n div 2)))"

declare ilog2.simps [simp del]

text \<open>\<open>binade x\<close> is the exponent \<open>e\<close> with \<open>2 ^ e \<le> \<bar>x\<bar> < 2 ^ (e + 1)\<close>, for \<open>x \<noteq> 0\<close>.\<close>

definition binade :: "rat \<Rightarrow> int" where
  "binade x =
     (if 1 \<le> \<bar>x\<bar> then int (ilog2 (nat \<lfloor>\<bar>x\<bar>\<rfloor>))
      else - int (Suc (ilog2 (nat \<lceil>1 / \<bar>x\<bar>\<rceil> - 1))))"

definition pow2 :: "int \<Rightarrow> rat" where
  "pow2 k = (if 0 \<le> k then 2 ^ nat k else 1 / 2 ^ nat (- k))"

definition fl :: "rat \<Rightarrow> rat" where
  "fl x = (if x = 0 then 0
           else let e = binade x - 52 in of_int (round_half_even (x / pow2 e)) * pow2 e)"

text \<open>
  Python's arithmetic on the two kinds of number: \<open>int\<close> with \<open>int\<close> stays exact under
  \<open>*\<close> and \<open>+\<close>, \<open>/\<close> is true division and always gives a float, and a mixed operation
  first converts the \<open>int\<close> operand to a float. The divisors in the sources are non-zero
  literals.
\<close>

fun as_float :: "magnitude \<Rightarrow> rat" where
  "as_float (IntMag i) = fl (of_int i)"
| "as_float (FloatMag x) = x"

fun py_mul :: "magnitude \<Rightarrow> magnitude \<Rightarrow> magnitude" where
  "py_mul (IntMag a) (IntMag b) = IntMag (a * b)"
| "py_mul a b = FloatMag (fl (as_float a * as_float b))"

fun py_add :: "magnitude \<Rightarrow> magnitude \<Rightarrow> magnitude" where
  "py_add (IntMag a) (IntMag b) = IntMag (a + b)"
| "py_add a b = FloatMag (fl (as_float a + as_float b))"

fun py_truediv :: "magnitude \<Rightarrow> magnitude \<Rightarrow> magnitude" where
  "py_truediv (IntMag a) (IntMag b) = FloatMag (fl (of_int a / of_int b))"
| "py_truediv a b = FloatMag (fl (as_float a / as_float b))"

text \<open>Decimal digits of a natural number, and \<open>str(i)\<close> of an \<open>int\<close>.\<close>

fun dec :: "nat \<Rightarrow> string" where
  "dec n = (if n < 10 then [''0123456789'' ! n]
            else dec (n div 10) @ [''0123456789'' ! (n mod 10)])"

declare dec.simps [simp del]

definition str_int :: "int \<Rightarrow> string" where
  "str_int i = (if i < 0 then ''-'' @ dec (nat (- i)) else dec (nat i))"

text \<open>
  \<open>format(x, '.df')\<close> of a float: the exact value is rounded to \<open>d\<close> decimals, ties to
  even, the fraction is padded with zeros to \<open>d\<close> digits and a negative value keeps its
  sign.
\<close>

definition format_fixed :: "nat \<Rightarrow> rat \<Rightarrow> string" where
  "format_fixed d x =
     (let n = nat (round_half_even (\<bar>x\<bar> * 10 ^ d));
          frac = dec (n mod 10 ^ d)
      in (if x < 0 then ''-'' else [])
         @ dec (n div 10 ^ d)
         @ (if d = 0 then [] else ''.'' @ replicate (d - length frac) CHR ''0'' @ frac))"

section \<open>Readings and their formatting\<close>

datatype command =
    COOLANT_TEMP | RPM | THROTTLE_POS | ENGINE_LOAD | SPEED | FUEL_LEVEL
  | INTAKE_TEMP | AMBIANT_AIR_TEMP | OTHER_COMMAND nat

text \<open>
  What the formatters read of an \<open>OBDResponse\<close>: the answer of \<open>is_null()\<close>, the
  magnitude of \<open>value\<close> (\<open>None\<close> when \<open>value\<close> is \<open>None\<close>), \<open>command\<close> and \<open>unit\<close>.
\<close>

record obd_response =
  r_is_null :: bool
  r_value :: "magnitude option"
  r_command :: command
  r_unit :: string

datatype py_error = AttributeError | OtherError

text \<open>The degree sign followed by \<open>C\<close> and by \<open>F\<close>.\<close>

definition deg_C :: string where
  "deg_C = [CHR 0xB0, CHR ''C'']"

definition deg_F :: string where
  "deg_F = [CHR 0xB0, CHR ''F'']"

text \<open>
  \<open>get_formatted_value(response, unit)\<close> of OBD-v2.py and OBD-v3.py (the same text in
  both). \<open>UNITS\<close> is the module constant, a parameter here. The result is a string or
  \<open>None\<close>; reading \<open>.magnitude\<close> of a \<open>value\<close> that is \<open>None\<close> raises.
\<close>

definition get_formatted_value_v2 ::
  "string \<Rightarrow> obd_response \<Rightarrow> string \<Rightarrow> py_error + string option" where
  "get_formatted_value_v2 UNITS response unit =
     (if r_is_null response then Inr None
      else case r_value response of
        None \<Rightarrow> Inl AttributeError
      | Some v \<Rightarrow>
          (let (v', unit') =
                 (if unit = deg_C \<and> UNITS = ''imperial''
                  then (py_add (py_truediv (py_mul v (IntMag 9)) (IntMag 5)) (IntMag 32), deg_F)
                  else if unit = ''km/h'' \<and> UNITS = ''imperial''
                  then (py_mul v (FloatMag (fl (621371 / 1000000))), ''mph'')
                  else (v, unit))
           in Inr (Some (case v' of
                           FloatMag x \<Rightarrow> format_fixed 1 x @ '' '' @ unit'
                         | IntMag i \<Rightarrow> str_int i @ '' '' @ unit'))))"

text \<open>\<open>get_formatted_value(response)\<close> of OBD-v4.py; \<open>response\<close> may be \<open>None\<close>.\<close>

definition get_formatted_value_v4 :: "obd_response option \<Rightarrow> string" where
  "get_formatted_value_v4 response =
     (case response of
        None \<Rightarrow> ''N/A''
      | Some r \<Rightarrow>
          if r_is_null r then ''N/A''
          else case r_value r of
            None \<Rightarrow> ''N/A''
          | Some (FloatMag x) \<Rightarrow> format_fixed 1 x @ '' '' @ r_unit r
          | Some (IntMag i) \<Rightarrow> str_int i @ '' '' @ r_unit r)"

text \<open>
  \<open>get_formatted_value(response)\<close> of OBD-v5.py. A format specification \<open>.0f\<close> or
  \<open>.1f\<close> applied to an \<open>int\<close> converts it to a float first. \<open>str\<close> of a float, in the
  last branch, is the shortest decimal that reads back as the same float; it is the
  parameter \<open>float_repr\<close>.
\<close>

definition get_formatted_value_v5 :: "(rat \<Rightarrow> string) \<Rightarrow> obd_response option \<Rightarrow> string" where
  "get_formatted_value_v5 float_repr response =
     (case response of
        None \<Rightarrow> ''N/A''
      | Some r \<Rightarrow>
          if r_is_null r then ''N/A''
          else case r_value r of
            None \<Rightarrow> ''N/A''
          | Some v \<Rightarrow>
              (let cmd = r_command r
               in if cmd \<in> set [COOLANT_TEMP, INTAKE_TEMP, AMBIANT_AIR_TEMP]
                  then format_fixed 0 (as_float v) @ '' '' @ deg_C
                  else if cmd = RPM then format_fixed 1 (as_float v)
                  else if cmd \<in> set [THROTTLE_POS, ENGINE_LOAD, FUEL_LEVEL]
                  then format_fixed 1 (as_float v) @ '' %''
                  else if cmd = SPEED then format_fixed 1 (as_float v) @ '' km/h''
                  else (case v of IntMag i \<Rightarrow> str_int i | FloatMag x \<Rightarrow> float_repr x)))"

section \<open>Connection negotiation\<close>

text \<open>
  The outside world of a negotiation. \<open>comports\<close> is the answer of the serial
  enumerator. \<open>serial_check port\<close> tells how the settle pre-check on \<open>port\<close> goes:
  \<open>serial.Serial(...)\<close> may raise, \<open>s.close()\<close> may raise, or both return.
  \<open>obd_open port attempt\<close> tells how the \<open>attempt\<close>-th \<open>OBD(...)\<close> call on \<open>port\<close> goes:
  the session reports connected, or it opens and reports not connected, or the call
  raises.
\<close>

datatype precheck_outcome = SerialOk | SerialOpenRaises | SerialCloseRaises

datatype open_outcome = Connected | NotConnected | OpenRaises

record world =
  comports :: "port_info list"
  serial_check :: "string \<Rightarrow> precheck_outcome"
  obd_open :: "string \<Rightarrow> nat \<Rightarrow> open_outcome"

text \<open>
  A session is named by the port and the attempt that opened it. What a run does to the
  outside is recorded as a list of events, in order: the lines it prints or logs (one
  constructor per \<open>print\<close> or \<open>self.log\<close> statement), the seconds it sleeps, the serial
  and OBD calls it makes and, for the GUI variants, the assignments to \<open>self.connection\<close>
  and the callbacks handed to \<open>self.root.after\<close>.
\<close>

datatype session = Session string nat

datatype message =
    MsgWaiting | MsgScanning | MsgNoPairedPorts | MsgFoundPorts | MsgPortLine string string
  | MsgPreChecking string string | MsgSkipping string
  | MsgTrying string nat nat | MsgConnected string | MsgNotObd string | MsgError string
  | MsgNoResponsiveAdapter | MsgStabilizing | MsgAllFailed string

datatype ui_callback = UpdateUiOnConnect string | UpdateUiOnFail

datatype event =
    Print message | Sleep nat
  | SerialOpen string | SerialClose string
  | ObdOpen string nat | ObdClose string nat
  | SetConnection session | After ui_callback

text \<open>
  The body of \<open>for attempt in range(1, retries + 1)\<close> in \<open>connect_with_retry\<close>
  (OBD-v2.py and OBD-v3.py), over the attempts that are left. A connected session ends
  the function at once; a session that is not connected is closed; an exception of the
  \<open>try\<close> block is caught; in the last two cases the loop sleeps \<open>delay\<close> seconds and
  goes on.
\<close>

fun try_attempts ::
  "world \<Rightarrow> string \<Rightarrow> nat \<Rightarrow> nat \<Rightarrow> nat list \<Rightarrow> event list \<times> session option" where
  "try_attempts w port retries delay [] = ([], None)"
| "try_attempts w port retries delay (attempt # attempts) =
     (case obd_open w port attempt of
        Connected \<Rightarrow>
          ([Print (MsgTrying port attempt retries), ObdOpen port attempt,
            Print (MsgConnected port)],
           Some (Session port attempt))
      | NotConnected \<Rightarrow>
          (let (evs, res) = try_attempts w port retries delay attempts
           in ([Print (MsgTrying port attempt retries), ObdOpen port attempt,
                Print (MsgNotObd port), ObdClose port attempt, Sleep delay] @ evs, res))
      | OpenRaises \<Rightarrow>
          (let (evs, res) = try_attempts w port retries delay attempts
           in ([Print (MsgTrying port attempt retries), ObdOpen port attempt,
                Print (MsgError port), Sleep delay] @ evs, res)))"

text \<open>The settle pre-check of one port: the events, and whether it went through.\<close>

definition pre_check :: "world \<Rightarrow> string \<Rightarrow> string \<Rightarrow> event list \<times> bool" where
  "pre_check w port mac =
     (case serial_check w port of
        SerialOpenRaises \<Rightarrow>
          ([Print (MsgPreChecking port mac), Sleep 2, SerialOpen port,
            Print (MsgSkipping port)], False)
      | SerialCloseRaises \<Rightarrow>
          ([Print (MsgPreChecking port mac), Sleep 2, SerialOpen port, Sleep 2,
            SerialClose port, Print (MsgSkipping port)], False)
      | SerialOk \<Rightarrow>
          ([Print (MsgPreChecking port mac), Sleep 2, SerialOpen port, Sleep 2,
            SerialClose port, Sleep 10], True))"

text \<open>
  \<open>for port, mac in available_ports\<close>, over the candidates that are left, with the
  lines after the loop.
\<close>

fun connect_ports ::
  "world \<Rightarrow> nat \<Rightarrow> nat \<Rightarrow> (string \<times> string) list \<Rightarrow> event list \<times> session option" where
  "connect_ports w retries delay [] = ([Print MsgNoResponsiveAdapter], None)"
| "connect_ports w retries delay ((port, mac) # candidates) =
     (let (pre, ok) = pre_check w port mac
      in if \<not> ok
         then (let (evs, res) = connect_ports w retries delay candidates in (pre @ evs, res))
         else (case try_attempts w port retries delay [1..<Suc retries] of
                 (tried, Some conn) \<Rightarrow> (pre @ tried, Some conn)
               | (tried, None) \<Rightarrow>
                   (let (evs, res) = connect_ports w retries delay candidates
                    in (pre @ tried @ evs, res))))"

text \<open>
  \<open>connect_with_retry(protocol, baudrate, retries, delay, timeout)\<close>. The result is the
  pair \<open>(connection, port)\<close>, a session here, or \<open>(None, None)\<close>; which of the two failures
  happened shows only in the line printed last.
\<close>

definition connect_with_retry :: "world \<Rightarrow> nat \<Rightarrow> nat \<Rightarrow> event list \<times> session option" where
  "connect_with_retry w retries delay =
     (let available_ports = list_paired_bluetooth_ports extract_mac_from_hwid (comports w)
      in if available_ports = []
         then ([Print MsgWaiting, Sleep 5, Print MsgScanning, Print MsgNoPairedPorts], None)
         else (let (evs, res) = connect_ports w retries delay available_ports
               in ([Print MsgWaiting, Sleep 5, Print MsgScanning, Print MsgFoundPorts]
                   @ map (\<lambda>(port, mac). Print (MsgPortLine port mac)) available_ports
                   @ evs, res)))"

text \<open>
  \<open>attempt_connection_on_port(self, port)\<close> of OBD-v4.py and OBD-v5.py: three attempts
  on the port chosen in the GUI, two seconds after each failed one, five seconds of
  stabilisation before a connected session is stored.
\<close>

fun try_attempts_gui :: "world \<Rightarrow> string \<Rightarrow> nat list \<Rightarrow> event list \<times> session option" where
  "try_attempts_gui w port [] = ([Print (MsgAllFailed port), After UpdateUiOnFail], None)"
| "try_attempts_gui w port (attempt # attempts) =
     (case obd_open w port attempt of
        Connected \<Rightarrow>
          ([Print (MsgTrying port attempt 3), ObdOpen port attempt, Print (MsgConnected port),
            Print MsgStabilizing, Sleep 5, SetConnection (Session port attempt),
            After (UpdateUiOnConnect port)],
           Some (Session port attempt))
      | NotConnected \<Rightarrow>
          (let (evs, res) = try_attempts_gui w port attempts
           in ([Print (MsgTrying port attempt 3), ObdOpen port attempt, Print (MsgNotObd port),
                ObdClose port attempt, Sleep 2] @ evs, res))
      | OpenRaises \<Rightarrow>
          (let (evs, res) = try_attempts_gui w port attempts
           in ([Print (MsgTrying port attempt 3), ObdOpen port attempt, Print (MsgError port),
                Sleep 2] @ evs, res)))"

definition attempt_connection_on_port :: "world \<Rightarrow> string \<Rightarrow> event list \<times> session option" where
  "attempt_connection_on_port w port = try_attempts_gui w port [1..<4]"

text \<open>
  Observations on a list of events: the OBD sessions opened and closed, each as the pair
  of port and attempt number, in order; and the calls that touch a port at all.
\<close>

definition obd_opens :: "event list \<Rightarrow> (string \<times> nat) list" where
  "obd_opens evs = concat (map (\<lambda>e. case e of ObdOpen p a \<Rightarrow> [(p, a)] | _ \<Rightarrow> []) evs)"

definition obd_closes :: "event list \<Rightarrow> (string \<times> nat) list" where
  "obd_closes evs = concat (map (\<lambda>e. case e of ObdClose p a \<Rightarrow> [(p, a)] | _ \<Rightarrow> []) evs)"

definition is_serial_or_obd_call :: "event \<Rightarrow> bool" where
  "is_serial_or_obd_call e =
     (case e of SerialOpen p \<Rightarrow> True | SerialClose p \<Rightarrow> True
              | ObdOpen p a \<Rightarrow> True | ObdClose p a \<Rightarrow> True | _ \<Rightarrow> False)"

section \<open>Acquisition loop\<close>

text \<open>
  The outside world of a sampling loop, tick by tick (the first tick is tick 1):
  what \<open>is_connected()\<close> answers at the head of tick \<open>t\<close>, what \<open>query(cmd)\<close> returns or
  raises during tick \<open>t\<close>, the timestamp taken in tick \<open>t\<close>; for the GUI variants, what
  the loop head reads in \<open>self.running\<close> (the flag another thread clears to stop the
  loop) and whether \<open>self.connection\<close> is set; for the terminal variants, whether Ctrl-C
  arrives before tick \<open>t\<close> appends its row.
\<close>

record loop_env =
  is_connected :: "nat \<Rightarrow> bool"
  query :: "nat \<Rightarrow> command \<Rightarrow> py_error + obd_response option"
  now :: "nat \<Rightarrow> string"
  running :: "nat \<Rightarrow> bool"
  connection_set :: "nat \<Rightarrow> bool"
  interrupt :: "nat \<Rightarrow> bool"

datatype loop_outcome =
  ConnectionLost | CancelledByCaller | AcquisitionError py_error | Interrupted | Crashed py_error

datatype loop_message =
  MsgConnectionLost | MsgQuerying | MsgReceived | MsgLoopError py_error | MsgHalting

datatype loop_event =
    Log loop_message | LoopSleep nat
  | Emit string "string list"
  | AppendRow "string option list" | DisplayTable
  | AfterDisconnect | AfterToggleMonitoring | AfterResetButton | SetRunningFalse

definition headers :: "string list" where
  "headers = [''Timestamp'', ''Coolant Temp'', ''Engine RPM'', ''Throttle Pos'', ''Engine Load'',
              ''Speed'', ''Fuel Level'', ''Intake Temp'', ''Ambient Temp'']"

text \<open>The entries of the \<open>data_points\<close> dictionary of \<open>monitor_data\<close>, in source order.\<close>

definition data_point_commands :: "(string \<times> command) list" where
  "data_point_commands =
     [(''Coolant Temp'', COOLANT_TEMP), (''Engine RPM'', RPM), (''Throttle Pos'', THROTTLE_POS),
      (''Engine Load'', ENGINE_LOAD), (''Speed'', SPEED), (''Fuel Level'', FUEL_LEVEL),
      (''Intake Temp'', INTAKE_TEMP), (''Ambient Temp'', AMBIANT_AIR_TEMP)]"

text \<open>
  The dictionary display is evaluated entry by entry; the first query that raises ends
  the evaluation with that exception.
\<close>

fun query_all ::
  "(command \<Rightarrow> py_error + obd_response option) \<Rightarrow> (obd_response option \<Rightarrow> string) \<Rightarrow>
   (string \<times> command) list \<Rightarrow> py_error + (string \<times> string) list" where
  "query_all q fmt [] = Inr []"
| "query_all q fmt ((h, cmd) # rest) =
     (case q cmd of
        Inl err \<Rightarrow> Inl err
      | Inr response \<Rightarrow>
          (case query_all q fmt rest of
             Inl err \<Rightarrow> Inl err
           | Inr data_points \<Rightarrow> Inr ((h, fmt response) # data_points)))"

text \<open>\<open>[data_points.get(h, "N/A") for h in headers[1:]]\<close>\<close>

definition row_data :: "(string \<times> string) list \<Rightarrow> string list" where
  "row_data data_points =
     map (\<lambda>h. case map_of data_points h of Some v \<Rightarrow> v | None \<Rightarrow> ''N/A'') (tl headers)"

text \<open>
  The \<open>while self.running\<close> loop of \<open>monitor_data\<close> in OBD-v4.py and OBD-v5.py, from tick
  \<open>t\<close> on. \<open>fmt\<close> is the variant's formatter, \<open>verbose\<close> tells whether the two log lines
  of OBD-v5.py around the queries are there, \<open>refresh\<close> is \<open>REFRESH_RATE\<close>. The loop
  need not end, so the model runs at most \<open>fuel\<close> ticks; the outcome \<open>None\<close> says that the
  loop was still running when the fuel ran out.
\<close>

fun monitor_loop ::
  "(obd_response option \<Rightarrow> string) \<Rightarrow> bool \<Rightarrow> nat \<Rightarrow> loop_env \<Rightarrow> nat \<Rightarrow> nat \<Rightarrow>
   loop_event list \<times> loop_outcome option" where
  "monitor_loop fmt verbose refresh e 0 t = ([], None)"
| "monitor_loop fmt verbose refresh e (Suc fuel) t =
     (if \<not> running e t then ([], Some CancelledByCaller)
      else if \<not> connection_set e t \<or> \<not> is_connected e t
      then ([Log MsgConnectionLost, AfterDisconnect], Some ConnectionLost)
      else (case query_all (query e t) fmt data_point_commands of
              Inl err \<Rightarrow>
                ((if verbose then [Log MsgQuerying] else [])
                 @ [Log (MsgLoopError err), Log MsgHalting, AfterToggleMonitoring],
                 Some (AcquisitionError err))
            | Inr data_points \<Rightarrow>
                (let (evs, res) = monitor_loop fmt verbose refresh e fuel (Suc t)
                 in ((if verbose then [Log MsgQuerying, Log MsgReceived] else [])
                     @ [Emit (now e t) (row_data data_points), LoopSleep refresh] @ evs,
                     res))))"

text \<open>\<open>monitor_data\<close>: the loop from tick 1 and the two statements after it.\<close>

definition monitor_data ::
  "(obd_response option \<Rightarrow> string) \<Rightarrow> bool \<Rightarrow> nat \<Rightarrow> loop_env \<Rightarrow> nat \<Rightarrow>
   loop_event list \<times> loop_outcome option" where
  "monitor_data fmt verbose refresh e fuel =
     (case monitor_loop fmt verbose refresh e fuel 1 of
        (evs, None) \<Rightarrow> (evs, None)
      | (evs, Some outcome) \<Rightarrow> (evs @ [AfterResetButton, SetRunningFalse], Some outcome))"

definition monitor_data_v4 :: "loop_env \<Rightarrow> nat \<Rightarrow> loop_event list \<times> loop_outcome option" where
  "monitor_data_v4 = monitor_data get_formatted_value_v4 False 2"

definition monitor_data_v5 ::
  "(rat \<Rightarrow> string) \<Rightarrow> loop_env \<Rightarrow> nat \<Rightarrow> loop_event list \<times> loop_outcome option" where
  "monitor_data_v5 float_repr = monitor_data (get_formatted_value_v5 float_repr) True 2"

text \<open>
  The \<open>while True\<close> loop of \<open>main\<close> in OBD-v2.py (OBD-v3.py has the same loop with three
  more constant columns and a CSV append in place of the list append). The columns are
  queried and formatted in order; an exception leaves the loop, and so does Ctrl-C.
  Nothing in the loop asks the session whether it is connected.
\<close>

definition columns_v2 :: "(command \<times> string) list" where
  "columns_v2 =
     [(COOLANT_TEMP, deg_C), (RPM, []), (THROTTLE_POS, ''%''), (ENGINE_LOAD, ''%''),
      (SPEED, ''km/h''), (FUEL_LEVEL, ''%''), (INTAKE_TEMP, deg_C), (AMBIANT_AIR_TEMP, deg_C)]"

fun format_all_v2 ::
  "string \<Rightarrow> (command \<Rightarrow> py_error + obd_response option) \<Rightarrow> (command \<times> string) list \<Rightarrow>
   py_error + string option list" where
  "format_all_v2 UNITS q [] = Inr []"
| "format_all_v2 UNITS q ((cmd, unit) # rest) =
     (case q cmd of
        Inl err \<Rightarrow> Inl err
      | Inr None \<Rightarrow> Inl AttributeError
      | Inr (Some response) \<Rightarrow>
          (case get_formatted_value_v2 UNITS response unit of
             Inl err \<Rightarrow> Inl err
           | Inr cell \<Rightarrow>
               (case format_all_v2 UNITS q rest of
                  Inl err \<Rightarrow> Inl err
                | Inr cells \<Rightarrow> Inr (cell # cells))))"

fun main_loop_v2 ::
  "string \<Rightarrow> nat \<Rightarrow> loop_env \<Rightarrow> nat \<Rightarrow> nat \<Rightarrow> loop_event list \<times> loop_outcome option" where
  "main_loop_v2 UNITS refresh e 0 t = ([], None)"
| "main_loop_v2 UNITS refresh e (Suc fuel) t =
     (if interrupt e t then ([], Some Interrupted)
      else (case format_all_v2 UNITS (query e t) columns_v2 of
              Inl err \<Rightarrow> ([], Some (Crashed err))
            | Inr cells \<Rightarrow>
                (let (evs, res) = main_loop_v2 UNITS refresh e fuel (Suc t)
                 in ([AppendRow (Some (now e t) # cells), DisplayTable, LoopSleep refresh] @ evs,
                     res))))"

text \<open>The samples a run handed on, in order.\<close>

definition emitted :: "loop_event list \<Rightarrow> (string \<times> string list) list" where
  "emitted evs = concat (map (\<lambda>ev. case ev of Emit ts row \<Rightarrow> [(ts, row)] | _ \<Rightarrow> []) evs)"

definition appended :: "loop_event list \<Rightarrow> string option list list" where
  "appended evs = concat (map (\<lambda>ev. case ev of AppendRow row \<Rightarrow> [row] | _ \<Rightarrow> []) evs)"

section \<open>Properties\<close>

subsection \<open>MAC extraction: the search and the tokens\<close>

lemma upper_char_amp: "upper_char c = CHR ''&'' \<longleftrightarrow> c = CHR ''&''"
  by (auto simp: upper_char_def split: if_splits)

lemma hex_upper: "hex_class (upper_char c) \<longleftrightarrow> hex_digit c"
  by (auto simp: upper_char_def hex_class_def hex_digit_def split: if_splits)

lemma list_all_take_nth:
  "n \<le> length xs \<Longrightarrow> list_all P (take n xs) \<longleftrightarrow> (\<forall>j<n. P (xs ! j))"
  by (auto simp: list_all_length)

lemma token_at_Cons_0:
  "token_at d (c # cs) 0 \<longleftrightarrow> c = CHR ''&'' \<and> 12 \<le> length cs \<and> list_all d (take 12 cs)"
proof -
  have "(\<forall>j\<in>{1..12}. d ((c # cs) ! j)) \<longleftrightarrow> (\<forall>j<12. d (cs ! j))"
  proof
    assume h: "\<forall>j\<in>{1..12}. d ((c # cs) ! j)"
    show "\<forall>j<12. d (cs ! j)"
    proof (intro allI impI)
      fix j :: nat assume "j < 12"
      then have "Suc j \<in> {1..12}" by simp
      with h have "d ((c # cs) ! Suc j)" by blast
      then show "d (cs ! j)" by simp
    qed
  next
    assume h: "\<forall>j<12. d (cs ! j)"
    show "\<forall>j\<in>{1..12}. d ((c # cs) ! j)"
    proof
      fix j :: nat assume "j \<in> {1..12}"
      then obtain k where "j = Suc k" "k < 12" by (cases j) auto
      with h show "d ((c # cs) ! j)" by simp
    qed
  qed
  then show ?thesis
    by (auto simp: token_at_def list_all_take_nth)
qed

lemma token_at_Cons_Suc: "token_at d (c # cs) (Suc i) \<longleftrightarrow> token_at d cs i"
  by (simp add: token_at_def add.commute)

lemma token_at_Nil: "\<not> token_at d [] i"
  by (simp add: token_at_def)

lemma re_search_mac_None: "re_search_mac s = None \<longleftrightarrow> (\<forall>i. \<not> token_at hex_class s i)"
proof (induction s)
  case Nil
  show ?case by (simp add: token_at_Nil)
next
  case (Cons c cs)
  show ?case
  proof (cases "token_at hex_class (c # cs) 0")
    case True
    then have "re_search_mac (c # cs) \<noteq> None" by (simp add: token_at_Cons_0)
    with True show ?thesis by blast
  next
    case False
    then have "re_search_mac (c # cs) = re_search_mac cs" by (auto simp: token_at_Cons_0)
    moreover have "(\<forall>i. \<not> token_at hex_class (c # cs) i) \<longleftrightarrow> (\<forall>i. \<not> token_at hex_class cs i)"
    proof
      assume h: "\<forall>i. \<not> token_at hex_class (c # cs) i"
      show "\<forall>i. \<not> token_at hex_class cs i"
      proof
        fix i from h have "\<not> token_at hex_class (c # cs) (Suc i)" by blast
        then show "\<not> token_at hex_class cs i" by (simp add: token_at_Cons_Suc)
      qed
    next
      assume h: "\<forall>i. \<not> token_at hex_class cs i"
      show "\<forall>i. \<not> token_at hex_class (c # cs) i"
      proof
        fix i show "\<not> token_at hex_class (c # cs) i"
          using False h by (cases i) (simp_all add: token_at_Cons_Suc)
      qed
    qed
    ultimately show ?thesis using Cons.IH by simp
  qed
qed

lemma re_search_mac_leftmost:
  "token_at hex_class s i \<Longrightarrow> (\<forall>k<i. \<not> token_at hex_class s k) \<Longrightarrow>
   re_search_mac s = Some (take 12 (drop (Suc i) s))"
proof (induction s arbitrary: i)
  case Nil
  then show ?case by (simp add: token_at_Nil)
next
  case (Cons c cs)
  show ?case
  proof (cases i)
    case 0
    with Cons.prems(1) show ?thesis by (simp add: token_at_Cons_0)
  next
    case (Suc m)
    with Cons.prems(2) have no0: "\<not> token_at hex_class (c # cs) 0" by blast
    from Suc Cons.prems(1) have tm: "token_at hex_class cs m" by (simp add: token_at_Cons_Suc)
    have "\<forall>k<m. \<not> token_at hex_class cs k"
    proof (intro allI impI)
      fix k assume "k < m"
      then have "Suc k < i" using Suc by simp
      with Cons.prems(2) have "\<not> token_at hex_class (c # cs) (Suc k)" by blast
      then show "\<not> token_at hex_class cs k" by (simp add: token_at_Cons_Suc)
    qed
    with tm have "re_search_mac cs = Some (take 12 (drop (Suc m) cs))" by (rule Cons.IH)
    moreover from no0 have "re_search_mac (c # cs) = re_search_mac cs"
      by (auto simp: token_at_Cons_0)
    ultimately show ?thesis using Suc by simp
  qed
qed

lemma token_at_upper: "token_at hex_class (upper s) i \<longleftrightarrow> token_at hex_digit s i"
  by (auto simp: token_at_def upper_def upper_char_amp hex_upper)

lemma len12:
  "length t = 12 \<Longrightarrow> \<exists>a b c d e f g h i j k l. t = [a, b, c, d, e, f, g, h, i, j, k, l]"
  by (simp add: numeral_eq_Suc length_Suc_conv) blast

lemma group_mac_12:
  assumes "length t = 12"
  shows "group_mac t = [t ! 0, t ! 1, CHR '':'', t ! 2, t ! 3, CHR '':'', t ! 4, t ! 5, CHR '':'',
                  t ! 6, t ! 7, CHR '':'', t ! 8, t ! 9, CHR '':'', t ! 10, t ! 11]"
proof -
  from len12 [OF assms] obtain a b c d e f g h i j k l
    where t: "t = [a, b, c, d, e, f, g, h, i, j, k, l]" by blast
  show ?thesis unfolding t by (simp add: group_mac_def slice_def)
qed

lemma token_at_code:
  "token_at d s i \<longleftrightarrow> i + 12 < length s \<and> s ! i = CHR ''&'' \<and> list_all d (take 12 (drop (Suc i) s))"
proof (induction s arbitrary: i)
  case Nil
  show ?case by (simp add: token_at_Nil)
next
  case (Cons c cs)
  show ?case
  proof (cases i)
    case 0
    show ?thesis unfolding 0 token_at_Cons_0 by auto
  next
    case (Suc m)
    show ?thesis unfolding Suc token_at_Cons_Suc Cons.IH by auto
  qed
qed

lemma no_token_iff: "(\<forall>i. \<not> token_at hex_digit hw i) \<longleftrightarrow> re_search_mac (upper hw) = None"
  by (simp add: re_search_mac_None token_at_upper)

lemma token_slice:
  assumes "token_at hex_digit hw i"
  shows "take 12 (drop (Suc i) (upper hw)) = upper (slice hw (i + 1) (i + 13))"
    and "length (upper (slice hw (i + 1) (i + 13))) = 12"
    and "list_all hex_class (upper (slice hw (i + 1) (i + 13)))"
proof -
  from assms have len: "i + 12 < length hw" by (simp add: token_at_def)
  show eq: "take 12 (drop (Suc i) (upper hw)) = upper (slice hw (i + 1) (i + 13))"
    by (simp add: upper_def slice_def take_map drop_map)
  from len show "length (upper (slice hw (i + 1) (i + 13))) = 12"
    by (simp add: upper_def slice_def)
  from assms have "token_at hex_class (upper hw) i" by (simp add: token_at_upper)
  then have "list_all hex_class (take 12 (drop (Suc i) (upper hw)))"
    by (simp add: token_at_code)
  with eq show "list_all hex_class (upper (slice hw (i + 1) (i + 13)))" by simp
qed

lemma search_leftmost:
  assumes "token_at hex_digit hw i" and "\<forall>k<i. \<not> token_at hex_digit hw k"
  shows "re_search_mac (upper hw) = Some (upper (slice hw (i + 1) (i + 13)))"
proof -
  from assms have "re_search_mac (upper hw) = Some (take 12 (drop (Suc i) (upper hw)))"
    by (intro re_search_mac_leftmost) (simp_all add: token_at_upper)
  with token_slice(1) [OF assms(1)] show ?thesis by simp
qed

lemma least_token:
  assumes "token_at d s i"
  shows "\<exists>k\<le>i. token_at d s k \<and> (\<forall>m<k. \<not> token_at d s m)"
proof -
  define k where "k = (LEAST m. token_at d s m)"
  have "token_at d s k" unfolding k_def using assms by (rule LeastI)
  moreover have "k \<le> i" unfolding k_def using assms by (rule Least_le)
  moreover have "\<forall>m<k. \<not> token_at d s m" unfolding k_def using not_less_Least by blast
  ultimately show ?thesis by blast
qed

text \<open>
  Claim C7, as the code has it. For a hardware id in which no ampersand is followed by
  twelve hexadecimal digits, \<open>extract_mac_from_hwid\<close> of OBD-v2.py, OBD-v3.py, OBD-v4.py
  and the first definition of OBD-v5.py return \<open>"00:00:00:00:00:00"\<close>, and the second
  definition of OBD-v5.py returns \<open>"Unknown"\<close>. Both functions are total: no branch of
  them raises.
\<close>

theorem extract_without_token:
  assumes "\<forall>i. \<not> token_at hex_digit hw i"
  shows "extract_mac_from_hwid hw = ''00:00:00:00:00:00'' \<and>
         extract_mac_from_hwid_v5_redef hw = ''Unknown''"
  using assms by (simp add: no_token_iff extract_mac_from_hwid_def extract_mac_from_hwid_v5_redef_def)

text \<open>The hardware id of a USB serial adapter.\<close>

theorem extract_without_token_witness:
  "(\<forall>i. \<not> token_at hex_digit ''USB VID:PID=1A86:7523 SER= LOCATION=1-4'' i) \<and>
   extract_mac_from_hwid ''USB VID:PID=1A86:7523 SER= LOCATION=1-4'' = ''00:00:00:00:00:00'' \<and>
   extract_mac_from_hwid_v5_redef ''USB VID:PID=1A86:7523 SER= LOCATION=1-4'' = ''Unknown''"
proof -
  have h: "\<forall>i. \<not> token_at hex_digit ''USB VID:PID=1A86:7523 SER= LOCATION=1-4'' i"
    unfolding no_token_iff by (simp add: upper_def upper_char_def hex_class_def)
  from h extract_without_token [OF h] show ?thesis by blast
qed

text \<open>
  The second definition of OBD-v5.py does not return the zero MAC for a hardware id
  without a token.
\<close>

theorem extract_sentinel_counterexample:
  "\<not> list_ex (token_at hex_digit ''USB VID:PID=1A86:7523 SER= LOCATION=1-4'')
       [0..<length ''USB VID:PID=1A86:7523 SER= LOCATION=1-4''] \<and>
   extract_mac_from_hwid_v5_redef ''USB VID:PID=1A86:7523 SER= LOCATION=1-4'' \<noteq> ''00:00:00:00:00:00''"
proof -
  have "\<forall>i. \<not> token_at hex_digit ''USB VID:PID=1A86:7523 SER= LOCATION=1-4'' i"
    unfolding no_token_iff by (simp add: upper_def upper_char_def hex_class_def)
  then have "\<not> list_ex (token_at hex_digit ''USB VID:PID=1A86:7523 SER= LOCATION=1-4'')
       [0..<length ''USB VID:PID=1A86:7523 SER= LOCATION=1-4'']"
    unfolding list_ex_iff by blast
  moreover have "extract_mac_from_hwid_v5_redef ''USB VID:PID=1A86:7523 SER= LOCATION=1-4'' \<noteq> ''00:00:00:00:00:00''"
    by (simp add: extract_mac_from_hwid_v5_redef_def upper_def upper_char_def hex_class_def)
  ultimately show ?thesis by blast
qed

text \<open>
  Claim C8. For a hardware id in which, at some position \<open>i\<close>, an ampersand is followed
  by twelve hexadecimal digits, the result is made of the twelve digits behind an
  ampersand at a position \<open>k \<le> i\<close>, in upper case, in their order, as six pairs
  separated by colons. Both definitions of OBD-v5.py agree on such an id.
\<close>

theorem extract_with_token:
  assumes "token_at hex_digit hw i"
  shows "\<exists>k\<le>i. token_at hex_digit hw k \<and>
           (let t = upper (slice hw (k + 1) (k + 13))
            in length t = 12 \<and> list_all hex_class t \<and>
               extract_mac_from_hwid hw =
                 [t ! 0, t ! 1, CHR '':'', t ! 2, t ! 3, CHR '':'', t ! 4, t ! 5, CHR '':'',
                  t ! 6, t ! 7, CHR '':'', t ! 8, t ! 9, CHR '':'', t ! 10, t ! 11] \<and>
               extract_mac_from_hwid_v5_redef hw = extract_mac_from_hwid hw)"
proof -
  from least_token [OF assms] obtain k
    where k: "k \<le> i" "token_at hex_digit hw k" "\<forall>m<k. \<not> token_at hex_digit hw m"
    by blast
  let ?t = "upper (slice hw (k + 1) (k + 13))"
  have s: "re_search_mac (upper hw) = Some ?t" using k(2,3) by (rule search_leftmost)
  have l: "length ?t = 12" using k(2) by (rule token_slice(2))
  have c: "list_all hex_class ?t" using k(2) by (rule token_slice(3))
  have e: "extract_mac_from_hwid hw = group_mac ?t"
    by (simp add: extract_mac_from_hwid_def s)
  have e': "extract_mac_from_hwid_v5_redef hw = group_mac ?t"
    by (simp add: extract_mac_from_hwid_v5_redef_def s)
  show ?thesis
    unfolding Let_def using k(1,2) l c e e' group_mac_12 [OF l] by (intro exI [of _ k]) simp
qed

text \<open>The example of the specification, in lower case in the hardware id.\<close>

theorem extract_with_token_witness:
  "token_at hex_digit ''BTHENUM&0002&001da5084912_C00000000'' 12 \<and>
   extract_mac_from_hwid ''BTHENUM&0002&001da5084912_C00000000'' = ''00:1D:A5:08:49:12''"
proof -
  have h: "token_at hex_digit ''BTHENUM&0002&001da5084912_C00000000'' 12"
    by (simp add: token_at_code hex_digit_def)
  from extract_with_token [OF h] 
  have "extract_mac_from_hwid_v5_redef ''BTHENUM&0002&001da5084912_C00000000'' =
        extract_mac_from_hwid ''BTHENUM&0002&001da5084912_C00000000''"
    unfolding Let_def by blast
  moreover have "extract_mac_from_hwid_v5_redef ''BTHENUM&0002&001da5084912_C00000000'' = ''00:1D:A5:08:49:12''"
    by (simp add: extract_mac_from_hwid_v5_redef_def upper_def upper_char_def hex_class_def group_mac_def slice_def)
  ultimately show ?thesis using h by simp
qed

text \<open>
  Claim C10. When a hardware id has a token at position \<open>i\<close>, another one at a later
  position \<open>j\<close> and none before \<open>i\<close>, the result is the grouping of the token at \<open>i\<close>,
  the leftmost one.
\<close>

theorem extract_leftmost_token:
  assumes "token_at hex_digit hw i" and "token_at hex_digit hw j" and "i < j"
    and "\<forall>k<i. \<not> token_at hex_digit hw k"
  shows "extract_mac_from_hwid hw = group_mac (upper (slice hw (i + 1) (i + 13)))"
  using search_leftmost [OF assms(1,4)] by (simp add: extract_mac_from_hwid_def)

text \<open>Two tokens in one hardware id.\<close>

theorem extract_leftmost_token_witness:
  "token_at hex_digit ''X&001DA5084912_Y&aabbccddeeff'' 1 \<and>
   token_at hex_digit ''X&001DA5084912_Y&aabbccddeeff'' 16 \<and>
   \<not> token_at hex_digit ''X&001DA5084912_Y&aabbccddeeff'' 0 \<and>
   extract_mac_from_hwid ''X&001DA5084912_Y&aabbccddeeff'' = ''00:1D:A5:08:49:12''"
proof -
  let ?h = "''X&001DA5084912_Y&aabbccddeeff''"
  have a: "token_at hex_digit ?h 1" by (simp add: token_at_code hex_digit_def)
  have b: "token_at hex_digit ?h 16" by (simp add: token_at_code hex_digit_def)
  have c: "\<forall>k<1. \<not> token_at hex_digit ?h k" by (simp add: token_at_code)
  have "extract_mac_from_hwid ?h = group_mac (upper (slice ?h (1 + 1) (1 + 13)))"
    using extract_leftmost_token [OF a b _ c] by simp
  also have "\<dots> = ''00:1D:A5:08:49:12''"
    by (simp add: group_mac_def slice_def upper_def upper_char_def)
  finally show ?thesis using a b c by simp
qed

subsection \<open>Port scan with the binding of OBD-v5.py\<close>

lemma group_mac_zero:
  assumes "length t = 12"
  shows "group_mac t = ''00:00:00:00:00:00'' \<longleftrightarrow> t = ''000000000000''"
proof -
  from len12 [OF assms] obtain a b c d e f g h i j k l
    where t: "t = [a, b, c, d, e, f, g, h, i, j, k, l]" by blast
  show ?thesis unfolding t by (simp add: group_mac_def slice_def)
qed

lemma scan_filter:
  "list_paired_bluetooth_ports extract ports =
     map (\<lambda>p. (device p, extract (hwid p)))
       (filter (\<lambda>p. contains (description p) ''Bluetooth'' \<and> extract (hwid p) \<noteq> ''00:00:00:00:00:00'')
          ports)"
  by (induction ports) (simp_all add: Let_def)

lemma bound_v5: "extract_bound_after_load_v5 = extract_mac_from_hwid_v5_redef"
  by (simp add: extract_bound_after_load_v5_def extract_defs_v5_def)

text \<open>
  Claim C9, as the code has it. Once OBD-v5.py has been loaded, \<open>extract_mac_from_hwid\<close>
  is bound to the second definition. With that binding the scan admits the ports whose
  description contains \<open>Bluetooth\<close> and whose extracted MAC is not the zero MAC: a
  hardware id without a token yields \<open>"Unknown"\<close> and is admitted under that name, and a
  hardware id with a token is turned away exactly when its leftmost token is twelve
  zeros.
\<close>

theorem scan_after_load_v5:
  "extract_bound_after_load_v5 = extract_mac_from_hwid_v5_redef \<and>
   list_paired_bluetooth_ports extract_bound_after_load_v5 ports =
     map (\<lambda>p. (device p, extract_mac_from_hwid_v5_redef (hwid p)))
       (filter (\<lambda>p. contains (description p) ''Bluetooth'' \<and>
                    extract_mac_from_hwid_v5_redef (hwid p) \<noteq> ''00:00:00:00:00:00'') ports) \<and>
   (\<forall>hw. (\<forall>i. \<not> token_at hex_digit hw i) \<longrightarrow> extract_mac_from_hwid_v5_redef hw = ''Unknown'') \<and>
   (\<forall>hw i. token_at hex_digit hw i \<and> (\<forall>k<i. \<not> token_at hex_digit hw k) \<longrightarrow>
      (extract_mac_from_hwid_v5_redef hw = ''00:00:00:00:00:00''
         \<longleftrightarrow> upper (slice hw (i + 1) (i + 13)) = ''000000000000''))"
proof (intro conjI allI impI)
  show "extract_bound_after_load_v5 = extract_mac_from_hwid_v5_redef" by (rule bound_v5)
  show "list_paired_bluetooth_ports extract_bound_after_load_v5 ports =
     map (\<lambda>p. (device p, extract_mac_from_hwid_v5_redef (hwid p)))
       (filter (\<lambda>p. contains (description p) ''Bluetooth'' \<and>
                    extract_mac_from_hwid_v5_redef (hwid p) \<noteq> ''00:00:00:00:00:00'') ports)"
    unfolding bound_v5 by (rule scan_filter)
next
  fix hw assume "\<forall>i. \<not> token_at hex_digit hw i"
  then show "extract_mac_from_hwid_v5_redef hw = ''Unknown''"
    by (simp add: no_token_iff extract_mac_from_hwid_v5_redef_def)
next
  fix hw i assume h: "token_at hex_digit hw i \<and> (\<forall>k<i. \<not> token_at hex_digit hw k)"
  then have s: "re_search_mac (upper hw) = Some (upper (slice hw (i + 1) (i + 13)))"
    by (intro search_leftmost) simp_all
  from h have l: "length (upper (slice hw (i + 1) (i + 13))) = 12"
    by (intro token_slice(2)) simp
  show "extract_mac_from_hwid_v5_redef hw = ''00:00:00:00:00:00''
         \<longleftrightarrow> upper (slice hw (i + 1) (i + 13)) = ''000000000000''"
    using group_mac_zero [OF l] by (simp add: extract_mac_from_hwid_v5_redef_def s)
qed

text \<open>A Bluetooth port without a token is listed with the MAC \<open>"Unknown"\<close>.\<close>

theorem scan_after_load_v5_witness:
  "(\<forall>i. \<not> token_at hex_digit ''USB VID:PID=1A86:7523'' i) \<and>
   list_paired_bluetooth_ports extract_bound_after_load_v5
     [\<lparr>device = ''COM7'', description = ''Bluetooth Peripheral Device'', hwid = ''USB VID:PID=1A86:7523''\<rparr>]
     = [(''COM7'', ''Unknown'')]"
proof -
  have h: "\<forall>i. \<not> token_at hex_digit ''USB VID:PID=1A86:7523'' i"
    unfolding no_token_iff by (simp add: upper_def upper_char_def hex_class_def)
  from scan_after_load_v5 [of "[\<lparr>device = ''COM7'', description = ''Bluetooth Peripheral Device'', hwid = ''USB VID:PID=1A86:7523''\<rparr>]"]
  have u: "extract_mac_from_hwid_v5_redef ''USB VID:PID=1A86:7523'' = ''Unknown''"
    and l: "list_paired_bluetooth_ports extract_bound_after_load_v5
     [\<lparr>device = ''COM7'', description = ''Bluetooth Peripheral Device'', hwid = ''USB VID:PID=1A86:7523''\<rparr>] =
     map (\<lambda>p. (device p, extract_mac_from_hwid_v5_redef (hwid p)))
       (filter (\<lambda>p. contains (description p) ''Bluetooth'' \<and>
                    extract_mac_from_hwid_v5_redef (hwid p) \<noteq> ''00:00:00:00:00:00'')
        [\<lparr>device = ''COM7'', description = ''Bluetooth Peripheral Device'', hwid = ''USB VID:PID=1A86:7523''\<rparr>])"
    using h by blast+
  show ?thesis using h unfolding l by (simp add: u)
qed

text \<open>
  With the binding in force after the load, a Bluetooth port whose hardware id carries
  the token of twelve zeros (the local end of an incoming Bluetooth link on Windows) is
  not admitted.
\<close>

theorem scan_after_load_v5_counterexample:
  "contains (description \<lparr>device = ''COM3'', description = ''Standard Serial over Bluetooth link (COM3)'',
       hwid = ''BTHENUM'' @ CHR 0x5C # ''{00001101-0000-1000-8000-00805F9B34FB}_LOCALMFG&0000'' @ CHR 0x5C # ''7&2F4B5D6&0&000000000000_00000000''\<rparr>) ''Bluetooth'' \<and>
   list_paired_bluetooth_ports extract_bound_after_load_v5
     [\<lparr>device = ''COM3'', description = ''Standard Serial over Bluetooth link (COM3)'',
       hwid = ''BTHENUM'' @ CHR 0x5C # ''{00001101-0000-1000-8000-00805F9B34FB}_LOCALMFG&0000'' @ CHR 0x5C # ''7&2F4B5D6&0&000000000000_00000000''\<rparr>] = []"
  by (simp add: bound_v5 extract_mac_from_hwid_v5_redef_def upper_def upper_char_def hex_class_def group_mac_def slice_def)

subsection \<open>Formatting\<close>

text \<open>
  In OBD-v2.py and OBD-v3.py a null response is formatted as \<open>None\<close>, not as the
  string \<open>"N/A"\<close>.
\<close>

theorem format_null_counterexample:
  "get_formatted_value_v2 ''metric''
     \<lparr>r_is_null = True, r_value = None, r_command = COOLANT_TEMP, r_unit = []\<rparr> deg_C
   \<noteq> Inr (Some ''N/A'')"
  by (simp add: get_formatted_value_v2_def)

text \<open>
  Claim C1, as the code has it. In OBD-v4.py and OBD-v5.py a reading without a magnitude
  (no response, a null response, or a response whose value is \<open>None\<close>) is formatted as
  the string \<open>"N/A"\<close>, whatever its command and unit. In OBD-v2.py and OBD-v3.py a null
  response is formatted as \<open>None\<close>, whatever the unit argument and the unit system.
\<close>

theorem format_null:
  "((response = None \<or> (\<exists>r. response = Some r \<and> (r_is_null r \<or> r_value r = None))) \<longrightarrow>
      get_formatted_value_v4 response = ''N/A'' \<and>
      get_formatted_value_v5 float_repr response = ''N/A'') \<and>
   (r_is_null r2 \<longrightarrow> get_formatted_value_v2 UNITS r2 unit = Inr None)"
  by (auto simp: get_formatted_value_v4_def get_formatted_value_v5_def
        get_formatted_value_v2_def split: option.splits)

text \<open>The statement at a null speed response under the imperial unit system.\<close>

theorem format_null_witness:
  "r_is_null \<lparr>r_is_null = True, r_value = None, r_command = SPEED, r_unit = []\<rparr> \<and>
   get_formatted_value_v4
     (Some \<lparr>r_is_null = True, r_value = None, r_command = SPEED, r_unit = []\<rparr>) = ''N/A'' \<and>
   get_formatted_value_v5 (\<lambda>x. [])
     (Some \<lparr>r_is_null = True, r_value = None, r_command = SPEED, r_unit = []\<rparr>) = ''N/A'' \<and>
   get_formatted_value_v2 ''imperial''
     \<lparr>r_is_null = True, r_value = None, r_command = SPEED, r_unit = []\<rparr> ''km/h'' = Inr None"
  using format_null [of "Some \<lparr>r_is_null = True, r_value = None, r_command = SPEED, r_unit = []\<rparr>"
      "\<lambda>x. []" "\<lparr>r_is_null = True, r_value = None, r_command = SPEED, r_unit = []\<rparr>"
      "''imperial''" "''km/h''"]
  by simp

text \<open>
  The formatter of OBD-v5.py never reads the unit system: a coolant temperature of
  \<open>93.0\<close> is not rendered in Fahrenheit.
\<close>

theorem format_imperial_counterexample:
  "get_formatted_value_v5 (\<lambda>x. [])
     (Some \<lparr>r_is_null = False, r_value = Some (FloatMag 93), r_command = COOLANT_TEMP,
            r_unit = deg_C\<rparr>)
   \<noteq> ''199.4 '' @ deg_F"
  by code_simp

text \<open>
  Claim C6, as the code has it. In OBD-v2.py and OBD-v3.py, with \<open>UNITS = "imperial"\<close>,
  a reading of \<open>93.0\<close> with the Celsius unit is converted by \<open>value * 9/5 + 32\<close> in float
  arithmetic and only then rounded to one decimal: the result is \<open>"199.4 \<degree>F"\<close> (the
  converted float is \<open>7015763794513101 / 2 ^ 45\<close>). OBD-v5.py renders the same coolant
  reading as \<open>"93 \<degree>C"\<close> and OBD-v4.py as \<open>93.0\<close> followed by the unit of the response,
  both without any conversion.
\<close>

theorem format_imperial:
  "get_formatted_value_v2 ''imperial''
     \<lparr>r_is_null = False, r_value = Some (FloatMag 93), r_command = COOLANT_TEMP, r_unit = u\<rparr>
     deg_C = Inr (Some (''199.4 '' @ deg_F)) \<and>
   py_add (py_truediv (py_mul (FloatMag 93) (IntMag 9)) (IntMag 5)) (IntMag 32)
     = FloatMag (7015763794513101 / 35184372088832) \<and>
   get_formatted_value_v5 float_repr
     (Some \<lparr>r_is_null = False, r_value = Some (FloatMag 93), r_command = COOLANT_TEMP,
            r_unit = u\<rparr>) = ''93 '' @ deg_C \<and>
   get_formatted_value_v4
     (Some \<lparr>r_is_null = False, r_value = Some (FloatMag 93), r_command = COOLANT_TEMP,
            r_unit = u\<rparr>) = ''93.0 '' @ u"
proof -
  have conv: "py_add (py_truediv (py_mul (FloatMag 93) (IntMag 9)) (IntMag 5)) (IntMag 32)
     = FloatMag (7015763794513101 / 35184372088832)"
    by code_simp
  have f1: "format_fixed (Suc 0) (7015763794513101 / 35184372088832) = ''199.4''" by code_simp
  have f0: "format_fixed 0 93 = ''93''" by code_simp
  have f93: "format_fixed (Suc 0) 93 = ''93.0''" by code_simp
  have v2: "get_formatted_value_v2 ''imperial''
     \<lparr>r_is_null = False, r_value = Some (FloatMag 93), r_command = COOLANT_TEMP, r_unit = u\<rparr>
     deg_C = Inr (Some (''199.4 '' @ deg_F))"
    by (simp add: get_formatted_value_v2_def conv f1
          del: py_add.simps py_mul.simps py_truediv.simps)
  have v5: "get_formatted_value_v5 float_repr
     (Some \<lparr>r_is_null = False, r_value = Some (FloatMag 93), r_command = COOLANT_TEMP,
            r_unit = u\<rparr>) = ''93 '' @ deg_C"
    by (simp add: get_formatted_value_v5_def f0)
  have v4: "get_formatted_value_v4
     (Some \<lparr>r_is_null = False, r_value = Some (FloatMag 93), r_command = COOLANT_TEMP,
            r_unit = u\<rparr>) = ''93.0 '' @ u"
    by (simp add: get_formatted_value_v4_def f93)
  from v2 conv v5 v4 show ?thesis by blast
qed

subsection \<open>Connection negotiation\<close>

lemma obd_opens_append: "obd_opens (xs @ ys) = obd_opens xs @ obd_opens ys"
  by (simp add: obd_opens_def)

lemma obd_closes_append: "obd_closes (xs @ ys) = obd_closes xs @ obd_closes ys"
  by (simp add: obd_closes_def)

lemma try_attempts_never:
  "\<forall>a \<in> set as. obd_open w port a = NotConnected \<Longrightarrow>
   try_attempts w port retries delay as =
     (concat (map (\<lambda>a. [Print (MsgTrying port a retries), ObdOpen port a,
                         Print (MsgNotObd port), ObdClose port a, Sleep delay]) as), None)"
  by (induction as) simp_all

lemma obd_opens_failed:
  "obd_opens (concat (map (\<lambda>a. [Print (MsgTrying port a retries), ObdOpen port a,
                         Print (MsgNotObd port), ObdClose port a, Sleep delay]) as)) = map (Pair port) as"
  by (induction as) (simp_all add: obd_opens_def)

lemma obd_closes_failed:
  "obd_closes (concat (map (\<lambda>a. [Print (MsgTrying port a retries), ObdOpen port a,
                         Print (MsgNotObd port), ObdClose port a, Sleep delay]) as)) = map (Pair port) as"
  by (induction as) (simp_all add: obd_closes_def)

lemma try_attempts_gui_never:
  "\<forall>a \<in> set as. obd_open w port a = NotConnected \<Longrightarrow>
   try_attempts_gui w port as =
     (concat (map (\<lambda>a. [Print (MsgTrying port a 3), ObdOpen port a,
                         Print (MsgNotObd port), ObdClose port a, Sleep 2]) as)
      @ [Print (MsgAllFailed port), After UpdateUiOnFail], None)"
  by (induction as) simp_all

lemma try_attempts_first_connected:
  "\<forall>a \<in> set pre. obd_open w port a \<noteq> Connected \<Longrightarrow> obd_open w port k = Connected \<Longrightarrow>
   snd (try_attempts w port retries delay (pre @ k # post)) = Some (Session port k) \<and>
   obd_opens (fst (try_attempts w port retries delay (pre @ k # post))) = map (Pair port) (pre @ [k])"
proof (induction pre)
  case Nil
  then show ?case by (simp add: obd_opens_def)
next
  case (Cons a pre)
  then have ih: "snd (try_attempts w port retries delay (pre @ k # post)) = Some (Session port k) \<and>
   obd_opens (fst (try_attempts w port retries delay (pre @ k # post))) = map (Pair port) (pre @ [k])"
    by simp
  from Cons.prems have "obd_open w port a \<noteq> Connected" by simp
  then show ?case using ih
    by (cases "obd_open w port a") (simp_all add: split_beta obd_opens_def)
qed

lemma try_attempts_cut:
  "\<forall>a \<in> set pre. obd_open w port a \<noteq> Connected \<Longrightarrow> obd_open w port k = Connected \<Longrightarrow>
   try_attempts w port retries delay (pre @ k # post) = try_attempts w port retries delay (pre @ [k])"
proof (induction pre)
  case Nil
  then show ?case by simp
next
  case (Cons a pre)
  then have ih: "try_attempts w port retries delay (pre @ k # post) =
      try_attempts w port retries delay (pre @ [k])"
    by simp
  show ?case
    by (cases "obd_open w port a") (simp_all add: ih)
qed

lemma try_attempts_gui_first_connected:
  "\<forall>a \<in> set pre. obd_open w port a \<noteq> Connected \<Longrightarrow> obd_open w port k = Connected \<Longrightarrow>
   snd (try_attempts_gui w port (pre @ k # post)) = Some (Session port k) \<and>
   obd_opens (fst (try_attempts_gui w port (pre @ k # post))) = map (Pair port) (pre @ [k])"
proof (induction pre)
  case Nil
  then show ?case by (simp add: obd_opens_def)
next
  case (Cons a pre)
  then have ih: "snd (try_attempts_gui w port (pre @ k # post)) = Some (Session port k) \<and>
   obd_opens (fst (try_attempts_gui w port (pre @ k # post))) = map (Pair port) (pre @ [k])"
    by simp
  from Cons.prems have "obd_open w port a \<noteq> Connected" by simp
  then show ?case using ih
    by (cases "obd_open w port a") (simp_all add: split_beta obd_opens_def)
qed

lemma upt_split: "1 \<le> k \<Longrightarrow> k \<le> n \<Longrightarrow> [1..<Suc n] = [1..<k] @ k # [Suc k..<Suc n]"
proof -
  assume k: "1 \<le> k" "k \<le> n"
  have "[1..<k + (Suc n - k)] = [1..<k] @ [k..<k + (Suc n - k)]"
    using k(1) by (rule upt_add_eq_append)
  moreover have "k + (Suc n - k) = Suc n" using k(2) by simp
  ultimately have "[1..<Suc n] = [1..<k] @ [k..<Suc n]" by simp
  moreover have "[k..<Suc n] = k # [Suc k..<Suc n]" using k(2) by (simp add: upt_conv_Cons)
  ultimately show ?thesis by simp
qed

lemma pre_check_ok:
  "serial_check w port = SerialOk \<Longrightarrow>
   pre_check w port mac = ([Print (MsgPreChecking port mac), Sleep 2, SerialOpen port, Sleep 2,
            SerialClose port, Sleep 10], True)"
  by (simp add: pre_check_def)

text \<open>
  Claim C2. A port passes the settle pre-check and every session opened on it within the
  budget reports not connected. Then the negotiation on that port is \<open>retries\<close> rounds of:
  open a session, close it, sleep \<open>delay\<close> seconds; the sessions opened are the attempts
  \<open>1\<close> to \<open>retries\<close>, each one is closed, and \<open>connect_with_retry\<close> goes on with the
  remaining candidates. The GUI variants have a budget of three attempts and two seconds
  on the one port chosen by the user, and report the failure after the third.
\<close>

theorem negotiate_never_connected:
  "((\<forall>a \<in> {1..retries}. obd_open w port a = NotConnected) \<and> serial_check w port = SerialOk \<longrightarrow>
      try_attempts w port retries delay [1..<Suc retries] =
        (concat (map (\<lambda>a. [Print (MsgTrying port a retries), ObdOpen port a,
                            Print (MsgNotObd port), ObdClose port a, Sleep delay])
                   [1..<Suc retries]), None) \<and>
      obd_opens (fst (try_attempts w port retries delay [1..<Suc retries]))
        = map (Pair port) [1..<Suc retries] \<and>
      length (obd_opens (fst (try_attempts w port retries delay [1..<Suc retries]))) = retries \<and>
      obd_closes (fst (try_attempts w port retries delay [1..<Suc retries]))
        = map (Pair port) [1..<Suc retries] \<and>
      connect_ports w retries delay ((port, mac) # candidates) =
        (fst (pre_check w port mac)
         @ fst (try_attempts w port retries delay [1..<Suc retries])
         @ fst (connect_ports w retries delay candidates),
         snd (connect_ports w retries delay candidates)))
   \<and> ((\<forall>a \<in> {1..3}. obd_open w port a = NotConnected) \<longrightarrow>
      attempt_connection_on_port w port =
        (concat (map (\<lambda>a. [Print (MsgTrying port a 3), ObdOpen port a,
                            Print (MsgNotObd port), ObdClose port a, Sleep 2]) [1, 2, 3])
         @ [Print (MsgAllFailed port), After UpdateUiOnFail], None))"
proof (intro conjI impI)
  assume h: "(\<forall>a \<in> {1..retries}. obd_open w port a = NotConnected) \<and> serial_check w port = SerialOk"
  then have all: "\<forall>a \<in> set [1..<Suc retries]. obd_open w port a = NotConnected" by auto
  show t: "try_attempts w port retries delay [1..<Suc retries] =
        (concat (map (\<lambda>a. [Print (MsgTrying port a retries), ObdOpen port a,
                            Print (MsgNotObd port), ObdClose port a, Sleep delay])
                   [1..<Suc retries]), None)"
    using all by (rule try_attempts_never)
  show o: "obd_opens (fst (try_attempts w port retries delay [1..<Suc retries]))
        = map (Pair port) [1..<Suc retries]"
    unfolding t fst_conv by (rule obd_opens_failed)
  show "length (obd_opens (fst (try_attempts w port retries delay [1..<Suc retries]))) = retries"
    unfolding o by simp
  show "obd_closes (fst (try_attempts w port retries delay [1..<Suc retries]))
        = map (Pair port) [1..<Suc retries]"
    unfolding t fst_conv by (rule obd_closes_failed)
  from h have pc: "pre_check w port mac = ([Print (MsgPreChecking port mac), Sleep 2,
      SerialOpen port, Sleep 2, SerialClose port, Sleep 10], True)"
    by (simp add: pre_check_ok)
  show "connect_ports w retries delay ((port, mac) # candidates) =
        (fst (pre_check w port mac)
         @ fst (try_attempts w port retries delay [1..<Suc retries])
         @ fst (connect_ports w retries delay candidates),
         snd (connect_ports w retries delay candidates))"
    unfolding connect_ports.simps pc t by (simp add: split_beta)
next
  assume "\<forall>a \<in> {1..3}. obd_open w port a = NotConnected"
  then have "\<forall>a \<in> set [1, 2, 3]. obd_open w port a = NotConnected" by simp
  then have "try_attempts_gui w port [1, 2, 3] =
     (concat (map (\<lambda>a. [Print (MsgTrying port a 3), ObdOpen port a,
                         Print (MsgNotObd port), ObdClose port a, Sleep 2]) [1, 2, 3])
      @ [Print (MsgAllFailed port), After UpdateUiOnFail], None)"
    by (rule try_attempts_gui_never)
  moreover have "[1..<4] = [1, 2, 3 :: nat]" by (simp add: upt_rec)
  ultimately show "attempt_connection_on_port w port =
        (concat (map (\<lambda>a. [Print (MsgTrying port a 3), ObdOpen port a,
                            Print (MsgNotObd port), ObdClose port a, Sleep 2]) [1, 2, 3])
         @ [Print (MsgAllFailed port), After UpdateUiOnFail], None)"
    by (simp only: attempt_connection_on_port_def)
qed

text \<open>A world where no session ever connects, with five attempts on \<open>COM4\<close>.\<close>

theorem negotiate_never_connected_witness:
  "map (obd_open \<lparr>comports = [], serial_check = (\<lambda>p. SerialOk),
        obd_open = (\<lambda>p a. NotConnected)\<rparr> ''COM4'') [1, 2, 3, 4, 5]
     = [NotConnected, NotConnected, NotConnected, NotConnected, NotConnected] \<and>
   serial_check \<lparr>comports = [], serial_check = (\<lambda>p. SerialOk),
        obd_open = (\<lambda>p a. NotConnected)\<rparr> ''COM4'' = SerialOk \<and>
   obd_opens (fst (try_attempts \<lparr>comports = [], serial_check = (\<lambda>p. SerialOk),
        obd_open = (\<lambda>p a. NotConnected)\<rparr> ''COM4'' 5 2 [1..<Suc 5]))
     = [(''COM4'', 1), (''COM4'', 2), (''COM4'', 3), (''COM4'', 4), (''COM4'', 5)] \<and>
   snd (attempt_connection_on_port \<lparr>comports = [], serial_check = (\<lambda>p. SerialOk),
        obd_open = (\<lambda>p a. NotConnected)\<rparr> ''COM4'') = None"
  using negotiate_never_connected [of 5 "\<lparr>comports = [], serial_check = (\<lambda>p. SerialOk),
        obd_open = (\<lambda>p a. NotConnected)\<rparr>" "''COM4''" 2 "''00:1D:A5:08:49:12''" "[]"]
  by (simp add: upt_rec)

text \<open>
  Claim C3. The session opened by attempt \<open>k\<close> of the budget is the first one that
  reports connected. Then the negotiator returns that session; the OBD sessions it has
  opened are the attempts \<open>1\<close> to \<open>k\<close> on that port and nothing else: no later attempt
  on the port and no session on a later candidate. The same holds for the three attempts
  of the GUI variants.
\<close>

theorem negotiate_connected_on_attempt:
  assumes "1 \<le> k" and "k \<le> retries"
    and "obd_open w port k = Connected"
    and "\<forall>a \<in> {1..<k}. obd_open w port a \<noteq> Connected"
    and "serial_check w port = SerialOk"
  shows "connect_ports w retries delay ((port, mac) # candidates) =
           (fst (pre_check w port mac) @ fst (try_attempts w port retries delay [1..<Suc k]),
            Some (Session port k)) \<and>
         obd_opens (fst (connect_ports w retries delay ((port, mac) # candidates)))
           = map (Pair port) [1..<Suc k] \<and>
         (k \<le> 3 \<longrightarrow>
            snd (attempt_connection_on_port w port) = Some (Session port k) \<and>
            obd_opens (fst (attempt_connection_on_port w port)) = map (Pair port) [1..<Suc k])"
proof -
  have pre: "\<forall>a \<in> set [1..<k]. obd_open w port a \<noteq> Connected" using assms(4) by simp
  have split: "[1..<Suc retries] = [1..<k] @ k # [Suc k..<Suc retries]"
    using assms(1,2) by (rule upt_split)
  have upk: "[1..<Suc k] = [1..<k] @ [k]" using assms(1) by simp
  have cut: "try_attempts w port retries delay [1..<Suc retries] =
             try_attempts w port retries delay [1..<Suc k]"
    unfolding split upk using pre assms(3) by (rule try_attempts_cut)
  have res: "snd (try_attempts w port retries delay [1..<Suc retries]) = Some (Session port k)"
    and ops: "obd_opens (fst (try_attempts w port retries delay [1..<Suc retries]))
              = map (Pair port) [1..<Suc k]"
    unfolding split upk using try_attempts_first_connected [OF pre assms(3)] by blast+
  have pc: "pre_check w port mac = ([Print (MsgPreChecking port mac), Sleep 2, SerialOpen port,
              Sleep 2, SerialClose port, Sleep 10], True)"
    using assms(5) by (rule pre_check_ok)
  have ta: "try_attempts w port retries delay [1..<Suc retries] =
            (fst (try_attempts w port retries delay [1..<Suc k]), Some (Session port k))"
    using res cut by (metis prod.collapse)
  have cp: "connect_ports w retries delay ((port, mac) # candidates) =
           (fst (pre_check w port mac) @ fst (try_attempts w port retries delay [1..<Suc k]),
            Some (Session port k))"
    using ta by (simp add: pc del: upt_Suc)
  have co: "obd_opens (fst (connect_ports w retries delay ((port, mac) # candidates)))
           = map (Pair port) [1..<Suc k]"
    unfolding cp fst_conv obd_opens_append using ops cut
    by (simp add: pc obd_opens_def del: upt_Suc)
  have gui: "k \<le> 3 \<longrightarrow>
            snd (attempt_connection_on_port w port) = Some (Session port k) \<and>
            obd_opens (fst (attempt_connection_on_port w port)) = map (Pair port) [1..<Suc k]"
  proof
    assume "k \<le> 3"
    with assms(1) have "[1..<Suc 3] = [1..<k] @ k # [Suc k..<Suc 3]" by (rule upt_split)
    then have "[1..<4] = [1..<k] @ k # [Suc k..<Suc 3]" by simp
    then show "snd (attempt_connection_on_port w port) = Some (Session port k) \<and>
            obd_opens (fst (attempt_connection_on_port w port)) = map (Pair port) [1..<Suc k]"
      unfolding attempt_connection_on_port_def upk
      using try_attempts_gui_first_connected [OF pre assms(3)] by simp
  qed
  from cp co gui show ?thesis by blast
qed

text \<open>Success on attempt 2 of 5 on \<open>COM4\<close>, with \<open>COM5\<close> waiting behind it.\<close>

theorem negotiate_connected_on_attempt_witness:
  "(1::nat) \<le> 2 \<and> (2::nat) \<le> 5 \<and>
   obd_open \<lparr>comports = [], serial_check = (\<lambda>p. SerialOk),
       obd_open = (\<lambda>p a. if a = 2 then Connected else NotConnected)\<rparr> ''COM4'' 2 = Connected \<and>
   snd (connect_ports \<lparr>comports = [], serial_check = (\<lambda>p. SerialOk),
       obd_open = (\<lambda>p a. if a = 2 then Connected else NotConnected)\<rparr> 5 2
       [(''COM4'', ''00:1D:A5:08:49:12''), (''COM5'', ''00:1D:A5:08:49:13'')])
     = Some (Session ''COM4'' 2) \<and>
   obd_opens (fst (connect_ports \<lparr>comports = [], serial_check = (\<lambda>p. SerialOk),
       obd_open = (\<lambda>p a. if a = 2 then Connected else NotConnected)\<rparr> 5 2
       [(''COM4'', ''00:1D:A5:08:49:12''), (''COM5'', ''00:1D:A5:08:49:13'')]))
     = [(''COM4'', 1), (''COM4'', 2)]"
proof -
  let ?w = "\<lparr>comports = [], serial_check = (\<lambda>p. SerialOk),
       obd_open = (\<lambda>p a. if a = 2 then Connected else NotConnected)\<rparr>"
  have h1: "(1::nat) \<le> 2" and h2: "(2::nat) \<le> 5" by simp_all
  have h3: "obd_open ?w ''COM4'' 2 = Connected" by simp
  have h4: "\<forall>a \<in> {1..<2}. obd_open ?w ''COM4'' a \<noteq> Connected" by simp
  have h5: "serial_check ?w ''COM4'' = SerialOk" by simp
  have l: "map (Pair ''COM4'') [1..<Suc 2] = [(''COM4'', 1), (''COM4'', 2::nat)]"
    by (simp add: upt_rec)
  from negotiate_connected_on_attempt [OF h1 h2 h3 h4 h5, of 2 "''00:1D:A5:08:49:12''"
       "[(''COM5'', ''00:1D:A5:08:49:13'')]"]
  have "connect_ports ?w 5 2 [(''COM4'', ''00:1D:A5:08:49:12''), (''COM5'', ''00:1D:A5:08:49:13'')] =
           (fst (pre_check ?w ''COM4'' ''00:1D:A5:08:49:12'') @ fst (try_attempts ?w ''COM4'' 5 2 [1..<Suc 2]),
            Some (Session ''COM4'' 2))"
    and "obd_opens (fst (connect_ports ?w 5 2
           [(''COM4'', ''00:1D:A5:08:49:12''), (''COM5'', ''00:1D:A5:08:49:13'')]))
         = map (Pair ''COM4'') [1..<Suc 2]"
    by blast+
  then show ?thesis using h1 h2 h3 l by (simp only: snd_conv)
qed

text \<open>
  Claim C4. When the scan yields no candidate, \<open>connect_with_retry\<close> sleeps its five
  seconds, prints that no paired port was found and returns \<open>(None, None)\<close>; it makes no
  serial pre-check and opens no OBD session.
\<close>

theorem connect_no_candidates:
  assumes "list_paired_bluetooth_ports extract_mac_from_hwid (comports w) = []"
  shows "connect_with_retry w retries delay =
           ([Print MsgWaiting, Sleep 5, Print MsgScanning, Print MsgNoPairedPorts], None) \<and>
         filter is_serial_or_obd_call (fst (connect_with_retry w retries delay)) = []"
  using assms by (simp add: connect_with_retry_def is_serial_or_obd_call_def)

text \<open>A machine whose only serial port is not a Bluetooth port.\<close>

theorem connect_no_candidates_witness:
  "list_paired_bluetooth_ports extract_mac_from_hwid
     (comports \<lparr>comports = [\<lparr>device = ''COM1'', description = ''Communications Port (COM1)'',
                              hwid = ''ACPI/PNP0501/1''\<rparr>],
                serial_check = (\<lambda>p. SerialOk), obd_open = (\<lambda>p a. Connected)\<rparr>) = [] \<and>
   connect_with_retry \<lparr>comports = [\<lparr>device = ''COM1'', description = ''Communications Port (COM1)'',
                              hwid = ''ACPI/PNP0501/1''\<rparr>],
                serial_check = (\<lambda>p. SerialOk), obd_open = (\<lambda>p a. Connected)\<rparr> 5 2 =
     ([Print MsgWaiting, Sleep 5, Print MsgScanning, Print MsgNoPairedPorts], None)"
proof -
  have h: "list_paired_bluetooth_ports extract_mac_from_hwid
     (comports \<lparr>comports = [\<lparr>device = ''COM1'', description = ''Communications Port (COM1)'',
                              hwid = ''ACPI/PNP0501/1''\<rparr>],
                serial_check = (\<lambda>p. SerialOk), obd_open = (\<lambda>p a. Connected)\<rparr>) = []"
    by simp
  from h connect_no_candidates [OF h, of 5 2] show ?thesis by blast
qed

subsection \<open>Acquisition loop\<close>

lemma query_all_ok:
  "\<forall>c. \<exists>r. q c = Inr r \<Longrightarrow> \<exists>dps. query_all q fmt cmds = Inr dps \<and> map fst dps = map fst cmds"
proof (induction cmds)
  case Nil
  show ?case by simp
next
  case (Cons hc cmds)
  obtain h c where hc: "hc = (h, c)" by (cases hc)
  from Cons.prems obtain r where r: "q c = Inr r" by blast
  from Cons obtain dps where "query_all q fmt cmds = Inr dps" "map fst dps = map fst cmds"
    by blast
  then show ?case by (simp add: hc r)
qed

lemma length_row_data: "length (row_data dps) = 8"
  by (simp add: row_data_def headers_def)

lemma monitor_loop_tick:
  assumes "running e t" and "connection_set e t" and "is_connected e t"
    and "\<forall>c. \<exists>r. query e t c = Inr r"
  shows "\<exists>row. length row = 8 \<and>
           monitor_loop fmt verbose refresh e (Suc fuel) t =
             ((if verbose then [Log MsgQuerying, Log MsgReceived] else [])
              @ [Emit (now e t) row, LoopSleep refresh]
              @ fst (monitor_loop fmt verbose refresh e fuel (Suc t)),
              snd (monitor_loop fmt verbose refresh e fuel (Suc t)))"
proof -
  from query_all_ok [OF assms(4)] obtain dps
    where dps: "query_all (query e t) fmt data_point_commands = Inr dps" by blast
  have "monitor_loop fmt verbose refresh e (Suc fuel) t =
             ((if verbose then [Log MsgQuerying, Log MsgReceived] else [])
              @ [Emit (now e t) (row_data dps), LoopSleep refresh]
              @ fst (monitor_loop fmt verbose refresh e fuel (Suc t)),
              snd (monitor_loop fmt verbose refresh e fuel (Suc t)))"
    using assms(1-3) by (simp add: dps split_beta)
  with length_row_data show ?thesis by blast
qed

lemma monitor_loop_lost:
  assumes "running e t" and "\<not> is_connected e t"
  shows "monitor_loop fmt verbose refresh e (Suc fuel) t =
           ([Log MsgConnectionLost, AfterDisconnect], Some ConnectionLost)"
  using assms by simp

lemma emitted_append: "emitted (xs @ ys) = emitted xs @ emitted ys"
  by (simp add: emitted_def)

lemma emitted_tick:
  "emitted ((if verbose then [Log MsgQuerying, Log MsgReceived] else [])
             @ [Emit ts row, LoopSleep refresh] @ rest) = (ts, row) # emitted rest"
  by (cases verbose) (simp_all add: emitted_def)

lemma monitor_data_three_samples:
  assumes conn: "\<forall>t \<in> {1..3}. is_connected e t" and lost: "\<not> is_connected e 4"
    and run: "\<forall>t \<in> {1..4}. running e t"
    and cset: "\<forall>t \<in> {1..3}. connection_set e t"
    and qok: "\<forall>t \<in> {1..3}. \<forall>c. \<exists>r. query e t c = Inr r"
    and fuel: "4 \<le> fuel"
  shows "\<exists>row1 row2 row3.
           length row1 = 8 \<and> length row2 = 8 \<and> length row3 = 8 \<and>
           emitted (fst (monitor_data fmt verbose refresh e fuel)) =
             [(now e 1, row1), (now e 2, row2), (now e 3, row3)] \<and>
           snd (monitor_data fmt verbose refresh e fuel) = Some ConnectionLost"
proof -
  define n where "n = fuel - 4"
  have n: "fuel = Suc (Suc (Suc (Suc n)))" using fuel by (simp add: n_def)
  have t4: "monitor_loop fmt verbose refresh e (Suc n) 4 =
           ([Log MsgConnectionLost, AfterDisconnect], Some ConnectionLost)"
    using run lost by (intro monitor_loop_lost) simp_all
  from monitor_loop_tick [of e 3 fmt verbose refresh "Suc n"] conn run cset qok
  obtain row3 where r3: "length row3 = 8"
    "monitor_loop fmt verbose refresh e (Suc (Suc n)) 3 =
       ((if verbose then [Log MsgQuerying, Log MsgReceived] else [])
        @ [Emit (now e 3) row3, LoopSleep refresh]
        @ fst (monitor_loop fmt verbose refresh e (Suc n) (Suc 3)),
        snd (monitor_loop fmt verbose refresh e (Suc n) (Suc 3)))"
    by auto
  from monitor_loop_tick [of e 2 fmt verbose refresh "Suc (Suc n)"] conn run cset qok
  obtain row2 where r2: "length row2 = 8"
    "monitor_loop fmt verbose refresh e (Suc (Suc (Suc n))) 2 =
       ((if verbose then [Log MsgQuerying, Log MsgReceived] else [])
        @ [Emit (now e 2) row2, LoopSleep refresh]
        @ fst (monitor_loop fmt verbose refresh e (Suc (Suc n)) (Suc 2)),
        snd (monitor_loop fmt verbose refresh e (Suc (Suc n)) (Suc 2)))"
    by auto
  from monitor_loop_tick [of e 1 fmt verbose refresh "Suc (Suc (Suc n))"] conn run cset qok
  obtain row1 where r1: "length row1 = 8"
    "monitor_loop fmt verbose refresh e (Suc (Suc (Suc (Suc n)))) 1 =
       ((if verbose then [Log MsgQuerying, Log MsgReceived] else [])
        @ [Emit (now e 1) row1, LoopSleep refresh]
        @ fst (monitor_loop fmt verbose refresh e (Suc (Suc (Suc n))) (Suc 1)),
        snd (monitor_loop fmt verbose refresh e (Suc (Suc (Suc n))) (Suc 1)))"
    by auto
  have s3: "Suc 3 = 4" and s2: "Suc 2 = 3" and s1: "Suc 1 = 2" by simp_all
  have e4: "emitted [Log MsgConnectionLost, AfterDisconnect] = []" by (simp add: emitted_def)
  have e5: "emitted [AfterResetButton, SetRunningFalse] = []" by (simp add: emitted_def)
  have snd1: "snd (monitor_loop fmt verbose refresh e fuel 1) = Some ConnectionLost"
    unfolding n r1(2) s1 r2(2) s2 r3(2) s3 t4 by simp
  have em1: "emitted (fst (monitor_loop fmt verbose refresh e fuel 1)) =
             [(now e 1, row1), (now e 2, row2), (now e 3, row3)]"
    unfolding n r1(2) s1 r2(2) s2 r3(2) s3 t4 fst_conv emitted_tick e4 by simp
  have md: "monitor_data fmt verbose refresh e fuel =
            (fst (monitor_loop fmt verbose refresh e fuel 1) @ [AfterResetButton, SetRunningFalse],
             Some ConnectionLost)"
    using snd1 by (simp add: monitor_data_def split_beta split: option.splits prod.splits)
  have "emitted (fst (monitor_data fmt verbose refresh e fuel)) =
             [(now e 1, row1), (now e 2, row2), (now e 3, row3)]"
    unfolding md fst_conv emitted_append em1 e5 by simp
  moreover have "snd (monitor_data fmt verbose refresh e fuel) = Some ConnectionLost"
    unfolding md by simp
  ultimately show ?thesis using r1(1) r2(1) r3(1) by blast
qed

text \<open>
  The loop of OBD-v2.py never asks the session whether it is connected: with a session
  that is connected on ticks 1 to 3 only and answers every query with a null response,
  five ticks append five rows and the loop is still running.
\<close>

theorem acquisition_connection_lost_counterexample:
  "map (is_connected
         \<lparr>is_connected = (\<lambda>t. t \<le> 3),
          query = (\<lambda>t c. Inr (Some \<lparr>r_is_null = True, r_value = None, r_command = c, r_unit = []\<rparr>)),
          now = (\<lambda>t. ''12:00:00''), running = (\<lambda>t. True), connection_set = (\<lambda>t. True),
          interrupt = (\<lambda>t. False)\<rparr>) [1, 2, 3, 4, 5]
     = [True, True, True, False, False] \<and>
   length (appended (fst (main_loop_v2 ''metric'' 1
         \<lparr>is_connected = (\<lambda>t. t \<le> 3),
          query = (\<lambda>t c. Inr (Some \<lparr>r_is_null = True, r_value = None, r_command = c, r_unit = []\<rparr>)),
          now = (\<lambda>t. ''12:00:00''), running = (\<lambda>t. True), connection_set = (\<lambda>t. True),
          interrupt = (\<lambda>t. False)\<rparr> 5 1))) = 5 \<and>
   snd (main_loop_v2 ''metric'' 1
         \<lparr>is_connected = (\<lambda>t. t \<le> 3),
          query = (\<lambda>t c. Inr (Some \<lparr>r_is_null = True, r_value = None, r_command = c, r_unit = []\<rparr>)),
          now = (\<lambda>t. ''12:00:00''), running = (\<lambda>t. True), connection_set = (\<lambda>t. True),
          interrupt = (\<lambda>t. False)\<rparr> 5 1) = None"
  by (simp add: numeral_eq_Suc columns_v2_def get_formatted_value_v2_def appended_def)

text \<open>
  Claim C5, as the code has it. In OBD-v4.py and OBD-v5.py: the session is connected at
  the head of ticks 1 to 3 and not at the head of tick 4, the running flag stays set and
  no query raises. Then \<open>monitor_data\<close> hands on exactly three samples, those of ticks
  1, 2 and 3, each with eight readings, and ends through the connection-lost branch, with
  no sample for tick 4. The loop ends within four ticks: any fuel of at least four gives
  this result.
\<close>

theorem acquisition_connection_lost:
  assumes "\<forall>t \<in> {1..3}. is_connected e t" and "\<not> is_connected e 4"
    and "\<forall>t \<in> {1..4}. running e t"
    and "\<forall>t \<in> {1..3}. connection_set e t"
    and "\<forall>t \<in> {1..3}. \<forall>c. \<exists>r. query e t c = Inr r"
    and "4 \<le> fuel"
  shows "(\<exists>row1 row2 row3.
            length row1 = 8 \<and> length row2 = 8 \<and> length row3 = 8 \<and>
            emitted (fst (monitor_data_v4 e fuel)) =
              [(now e 1, row1), (now e 2, row2), (now e 3, row3)] \<and>
            snd (monitor_data_v4 e fuel) = Some ConnectionLost) \<and>
         (\<exists>row1 row2 row3.
            length row1 = 8 \<and> length row2 = 8 \<and> length row3 = 8 \<and>
            emitted (fst (monitor_data_v5 float_repr e fuel)) =
              [(now e 1, row1), (now e 2, row2), (now e 3, row3)] \<and>
            snd (monitor_data_v5 float_repr e fuel) = Some ConnectionLost)"
  unfolding monitor_data_v4_def monitor_data_v5_def
  using monitor_data_three_samples [OF assms] by blast

text \<open>A session that is connected on ticks 1 to 3 only, run with fuel 4.\<close>

theorem acquisition_connection_lost_witness:
  "map (is_connected
         \<lparr>is_connected = (\<lambda>t. t \<le> 3),
          query = (\<lambda>t c. Inr (Some \<lparr>r_is_null = True, r_value = None, r_command = c, r_unit = []\<rparr>)),
          now = (\<lambda>t. ''12:00:00''), running = (\<lambda>t. True), connection_set = (\<lambda>t. True),
          interrupt = (\<lambda>t. False)\<rparr>) [1, 2, 3, 4] = [True, True, True, False] \<and>
   (4::nat) \<le> 4 \<and>
   length (emitted (fst (monitor_data_v5 (\<lambda>x. [])
         \<lparr>is_connected = (\<lambda>t. t \<le> 3),
          query = (\<lambda>t c. Inr (Some \<lparr>r_is_null = True, r_value = None, r_command = c, r_unit = []\<rparr>)),
          now = (\<lambda>t. ''12:00:00''), running = (\<lambda>t. True), connection_set = (\<lambda>t. True),
          interrupt = (\<lambda>t. False)\<rparr> 4))) = 3 \<and>
   snd (monitor_data_v5 (\<lambda>x. [])
         \<lparr>is_connected = (\<lambda>t. t \<le> 3),
          query = (\<lambda>t c. Inr (Some \<lparr>r_is_null = True, r_value = None, r_command = c, r_unit = []\<rparr>)),
          now = (\<lambda>t. ''12:00:00''), running = (\<lambda>t. True), connection_set = (\<lambda>t. True),
          interrupt = (\<lambda>t. False)\<rparr> 4) = Some ConnectionLost"
proof -
  let ?e = "\<lparr>is_connected = (\<lambda>t. t \<le> 3),
          query = (\<lambda>t c. Inr (Some \<lparr>r_is_null = True, r_value = None, r_command = c, r_unit = []\<rparr>)),
          now = (\<lambda>t. ''12:00:00''), running = (\<lambda>t. True), connection_set = (\<lambda>t. True),
          interrupt = (\<lambda>t. False)\<rparr>"
  have h1: "\<forall>t \<in> {1..3}. is_connected ?e t" by simp
  have h2: "\<not> is_connected ?e 4" by simp
  have h3: "\<forall>t \<in> {1..4}. running ?e t" by simp
  have h4: "\<forall>t \<in> {1..3}. connection_set ?e t" by simp
  have h5: "\<forall>t \<in> {1..3}. \<forall>c. \<exists>r. query ?e t c = Inr r" by simp
  have h6: "(4::nat) \<le> 4" by simp
  from acquisition_connection_lost [OF h1 h2 h3 h4 h5 h6, of "\<lambda>x. []"]
  obtain row1 row2 row3 where
    "emitted (fst (monitor_data_v5 (\<lambda>x. []) ?e 4)) =
       [(now ?e 1, row1), (now ?e 2, row2), (now ?e 3, row3)]"
    and s: "snd (monitor_data_v5 (\<lambda>x. []) ?e 4) = Some ConnectionLost"
    by blast
  then have "length (emitted (fst (monitor_data_v5 (\<lambda>x. []) ?e 4))) = 3" by simp
  moreover have "map (is_connected ?e) [1, 2, 3, 4] = [True, True, True, False]" by simp
  ultimately show ?thesis using h6 s by blast
qed

end
